theory Spec2Isabelle
  imports Complex_Main
begin

section \<open>Calculadora neuronal: the page component \<open>src/app/page.tsx\<close>\<close>

text \<open>
  The component \<open>Calculadora\<close> keeps seven pieces of React state, resolves a model for the
  selected operation (\<open>cambiarModelo\<close>, with the in-memory fallback
  \<open>crearModeloEnMemoria\<close>) and runs one prediction on demand (\<open>calcular\<close>).
  The embedding follows the source function by function. What the page calls but does not
  define (the tensor library, \<open>parseFloat\<close>, \<open>toFixed\<close>, \<open>alert\<close>, the console) is
  modelled as far as the page depends on it:
  \<^item> numbers are the special values \<open>NaN\<close>, \<open>+Infinity\<close>, \<open>-Infinity\<close> and exact
    rationals; the rounding of 64-bit and 32-bit floating point is outside the embedding;
  \<^item> the tensor engine is a counter of identifiers and the set of live tensors;
  \<^item> every call with an observable effect is appended to a trace.
\<close>

subsection \<open>Numbers\<close>

datatype number = NaN | PInf | NInf | Fin rat

definition isNaN :: "number \<Rightarrow> bool" where
  "isNaN x = (case x of NaN \<Rightarrow> True | _ \<Rightarrow> False)"

text \<open>Addition and multiplication with the special values of IEEE 754.\<close>

definition add :: "number \<Rightarrow> number \<Rightarrow> number" where
  "add x y =
     (case x of
        NaN \<Rightarrow> NaN
      | PInf \<Rightarrow> (case y of NaN \<Rightarrow> NaN | NInf \<Rightarrow> NaN | _ \<Rightarrow> PInf)
      | NInf \<Rightarrow> (case y of NaN \<Rightarrow> NaN | PInf \<Rightarrow> NaN | _ \<Rightarrow> NInf)
      | Fin a \<Rightarrow> (case y of NaN \<Rightarrow> NaN | PInf \<Rightarrow> PInf | NInf \<Rightarrow> NInf | Fin b \<Rightarrow> Fin (a + b)))"

definition infinity :: "bool \<Rightarrow> number" where
  "infinity negative = (if negative then NInf else PInf)"

definition mul :: "number \<Rightarrow> number \<Rightarrow> number" where
  "mul x y =
     (case x of
        NaN \<Rightarrow> NaN
      | PInf \<Rightarrow> (case y of NaN \<Rightarrow> NaN | PInf \<Rightarrow> PInf | NInf \<Rightarrow> NInf
                 | Fin b \<Rightarrow> if b = 0 then NaN else infinity (b < 0))
      | NInf \<Rightarrow> (case y of NaN \<Rightarrow> NaN | PInf \<Rightarrow> NInf | NInf \<Rightarrow> PInf
                 | Fin b \<Rightarrow> if b = 0 then NaN else infinity (0 < b))
      | Fin a \<Rightarrow> (case y of NaN \<Rightarrow> NaN
                 | PInf \<Rightarrow> if a = 0 then NaN else infinity (a < 0)
                 | NInf \<Rightarrow> if a = 0 then NaN else infinity (0 < a)
                 | Fin b \<Rightarrow> Fin (a * b)))"

subsection \<open>\<open>parseFloat\<close>\<close>

text \<open>
  The builtin skips leading white space and reads the longest prefix that is a decimal
  literal: an optional sign, then \<open>Infinity\<close> or digits with an optional fraction and an
  optional exponent. Whatever follows the prefix is ignored; with no such prefix the
  result is \<open>NaN\<close>. Strings are byte strings here, so white space is the ASCII white space.
\<close>

definition isWhiteSpace :: "char \<Rightarrow> bool" where
  "isWhiteSpace c = (c \<in> set [CHR '' '', CHR 0x09, CHR 0x0A, CHR 0x0B, CHR 0x0C, CHR 0x0D])"

definition isDigit :: "char \<Rightarrow> bool" where
  "isDigit c = (c \<in> set ''0123456789'')"

text \<open>The value of a digit is its position among the ten digits.\<close>

definition digitValue :: "char \<Rightarrow> nat" where
  "digitValue c = length (takeWhile (\<lambda>d. d \<noteq> c) ''0123456789'')"

definition digitsValue :: "string \<Rightarrow> nat" where
  "digitsValue ds = foldl (\<lambda>n c. 10 * n + digitValue c) 0 ds"

definition isPrefix :: "string \<Rightarrow> string \<Rightarrow> bool" where
  "isPrefix p s = (take (length p) s = p)"

text \<open>The sign in front of a literal: whether it is negative, and the rest.\<close>

definition readSign :: "string \<Rightarrow> bool \<times> string" where
  "readSign s =
     (case s of
        [] \<Rightarrow> (False, s)
      | c # r \<Rightarrow> if c = CHR ''-'' then (True, r) else if c = CHR ''+'' then (False, r)
                 else (False, s))"

text \<open>
  The exponent part after the mantissa: \<open>e\<close> or \<open>E\<close>, an optional sign and at least one
  digit; otherwise there is no exponent and the prefix ends before the letter.
\<close>

definition readExponent :: "string \<Rightarrow> int" where
  "readExponent s =
     (case s of
        [] \<Rightarrow> 0
      | c # r \<Rightarrow>
          if c = CHR ''e'' \<or> c = CHR ''E'' then
            (let (negative, r') = readSign r; ds = takeWhile isDigit r'
             in if ds = [] then 0
                else if negative then - int (digitsValue ds) else int (digitsValue ds))
          else 0)"

definition scale :: "rat \<Rightarrow> int \<Rightarrow> rat" where
  "scale m e = (if 0 \<le> e then m * 10 ^ nat e else m / 10 ^ nat (- e))"

definition parseFloat :: "string \<Rightarrow> number" where
  "parseFloat inputString =
     (let trimmed = dropWhile isWhiteSpace inputString;
          (negative, body) = readSign trimmed
      in if isPrefix ''Infinity'' body then infinity negative
         else
           (let intDigits = takeWhile isDigit body;
                afterInt = dropWhile isDigit body;
                hasPoint = (afterInt \<noteq> [] \<and> hd afterInt = CHR ''.'');
                fracDigits = (if hasPoint then takeWhile isDigit (tl afterInt) else []);
                afterFrac = (if hasPoint then dropWhile isDigit (tl afterInt) else afterInt)
            in if intDigits = [] \<and> fracDigits = [] then NaN
               else
                 (let mantissa = of_nat (digitsValue intDigits)
                        + of_nat (digitsValue fracDigits) / 10 ^ length fracDigits;
                      v = scale mantissa (readExponent afterFrac)
                  in Fin (if negative then - v else v))))"

subsection \<open>\<open>Number.prototype.toFixed\<close>\<close>

datatype error = ValueError | TypeError | RangeError | LoadError | BackendError

function decimalDigits :: "nat \<Rightarrow> string" where
  "decimalDigits n =
     (if n < 10 then [''0123456789'' ! n]
      else decimalDigits (n div 10) @ [''0123456789'' ! (n mod 10)])"
  by pat_completeness auto
termination
  by (relation "measure id") auto

declare decimalDigits.simps [simp del]

text \<open>
  \<open>toFixed\<close> with \<open>fractionDigits\<close> digits after the point: the integer \<open>n\<close> nearest to
  \<open>x * 10 ^ fractionDigits\<close> (the larger one on a tie), written in decimal and padded with
  zeros on the left to at least \<open>fractionDigits + 1\<close> digits, with the point inserted; a
  negative \<open>x\<close> is formatted as its absolute value after a minus sign. Values that are not
  finite are written by name. From \<open>10 ^ 21\<close> on the builtin hands over to the general
  number-to-string conversion, which depends on the binary representation: it is the
  parameter \<open>toString\<close>.
\<close>

definition toFixed :: "(rat \<Rightarrow> string) \<Rightarrow> number \<Rightarrow> nat \<Rightarrow> error + string" where
  "toFixed toString x fractionDigits =
     (if 100 < fractionDigits then Inl RangeError
      else
        (case x of
           NaN \<Rightarrow> Inr ''NaN''
         | PInf \<Rightarrow> Inr ''Infinity''
         | NInf \<Rightarrow> Inr ''-Infinity''
         | Fin q \<Rightarrow>
             (let s = (if q < 0 then ''-'' else '''');
                  y = \<bar>q\<bar>
              in if 10 ^ 21 \<le> y then Inr (s @ toString y)
                 else
                   (let n = nat \<lfloor>y * 10 ^ fractionDigits + 1 / 2\<rfloor>;
                        m = decimalDigits n;
                        m' = (if fractionDigits = 0 then m
                              else
                                (let padded = replicate (fractionDigits + 1 - length m) CHR ''0'' @ m;
                                     k = length padded
                                 in take (k - fractionDigits) padded @ ''.''
                                      @ drop (k - fractionDigits) padded))
                    in Inr (s @ m')))))"

subsection \<open>The tensor engine\<close>

text \<open>
  Calls that can be observed from outside the component, in the order they are made.
  \<open>Predict\<close> records the data of the input tensor handed to the model.
\<close>

datatype effect =
    Alert string
  | ConsoleLog
  | ConsoleWarn
  | ConsoleError
  | LoadLayersModel string
  | Predict "number list"

text \<open>
  The engine numbers tensors as it creates them and keeps a tensor's buffer until
  \<open>dispose\<close> is called on it.
\<close>

record world =
  nextId :: nat
  live :: "nat set"
  trace :: "effect list"

record tensor =
  ident :: nat
  shape :: "nat list"
  dataSync :: "number list"

definition emit :: "effect \<Rightarrow> world \<Rightarrow> world" where
  "emit e w = w\<lparr>trace := trace w @ [e]\<rparr>"

definition alloc :: "nat list \<Rightarrow> number list \<Rightarrow> world \<Rightarrow> tensor \<times> world" where
  "alloc sh xs w =
     (\<lparr>ident = nextId w, shape = sh, dataSync = xs\<rparr>,
      w\<lparr>nextId := Suc (nextId w), live := insert (nextId w) (live w)\<rparr>)"

definition dispose :: "tensor \<Rightarrow> world \<Rightarrow> world" where
  "dispose t w = w\<lparr>live := live w - {ident t}\<rparr>"

text \<open>\<open>tf.tensor2d\<close> of nested rows: the rows must all have the length of the first.\<close>

definition tensor2d :: "number list list \<Rightarrow> world \<Rightarrow> (error + tensor) \<times> world" where
  "tensor2d rows w =
     (if rows = [] \<or> \<not> list_all (\<lambda>r. length r = length (hd rows)) rows then (Inl ValueError, w)
      else (let (t, w') = alloc [length rows, length (hd rows)] (concat rows) w in (Inr t, w')))"

definition tensor1d :: "number list \<Rightarrow> world \<Rightarrow> tensor \<times> world" where
  "tensor1d xs w = alloc [length xs] xs w"

subsection \<open>Models\<close>

text \<open>
  \<open>predict\<close> returns one tensor or an array of tensors. A model is either the sequential
  model with one dense layer that the page builds itself, or a model read from a file, of
  which only the forward pass is known: a function from the shape and data of the input
  to an error or to the shapes and data of the outputs.
\<close>

datatype 'a prediction = Single 'a | Batch "'a list"

record denseArgs =
  units :: nat
  inputShape :: "nat list"

datatype LayersModel =
    Sequential denseArgs tensor tensor
  | Loaded "nat list \<times> number list \<Rightarrow> error + (nat list \<times> number list) prediction"

text \<open>
  \<open>setWeights\<close> on the sequential model with the one dense layer: exactly a kernel of
  shape \<open>[inputDim, units]\<close> and a bias of shape \<open>[units]\<close>, an error otherwise.
\<close>

definition setWeights :: "denseArgs \<Rightarrow> tensor list \<Rightarrow> error + LayersModel" where
  "setWeights a ws =
     (case ws of
        [k, b] \<Rightarrow>
          if inputShape a \<noteq> [] \<and> shape k = [last (inputShape a), units a] \<and> shape b = [units a]
          then Inr (Sequential a k b) else Inl ValueError
      | _ \<Rightarrow> Inl ValueError)"

definition dot :: "number list \<Rightarrow> number list \<Rightarrow> number" where
  "dot xs ys = foldl add (Fin 0) (map2 mul xs ys)"

text \<open>
  The dense layer with the default linear activation: every row of the input times the
  kernel, plus the bias. The input must have rank 2 and rows of the layer's input size.
\<close>

definition denseCall ::
  "denseArgs \<Rightarrow> tensor \<Rightarrow> tensor \<Rightarrow> nat list \<times> number list
     \<Rightarrow> error + (nat list \<times> number list) prediction" where
  "denseCall a k b x =
     (case fst x of
        [n, d] \<Rightarrow>
          if inputShape a \<noteq> [] \<and> d = last (inputShape a) then
            Inr (Single ([n, units a],
              concat (map (\<lambda>r. map (\<lambda>j.
                  add (dot (take d (drop (r * d) (snd x)))
                           (map (\<lambda>i. dataSync k ! (i * units a + j)) [0..<d]))
                      (dataSync b ! j)) [0..<units a]) [0..<n])))
          else Inl ValueError
      | _ \<Rightarrow> Inl ValueError)"

definition forward ::
  "LayersModel \<Rightarrow> nat list \<times> number list \<Rightarrow> error + (nat list \<times> number list) prediction" where
  "forward m x = (case m of Sequential a k b \<Rightarrow> denseCall a k b x | Loaded f \<Rightarrow> f x)"

fun allocAll :: "(nat list \<times> number list) list \<Rightarrow> world \<Rightarrow> tensor list \<times> world" where
  "allocAll [] w = ([], w)"
| "allocAll (v # vs) w =
     (let (t, w1) = alloc (fst v) (snd v) w; (ts, w2) = allocAll vs w1 in (t # ts, w2))"

text \<open>
  \<open>model.predict(x)\<close>: the call is recorded, the forward pass runs, and the engine creates
  the output tensors. A failing forward pass leaves no tensor behind.
\<close>

definition predict :: "LayersModel \<Rightarrow> tensor \<Rightarrow> world \<Rightarrow> (error + tensor prediction) \<times> world" where
  "predict m x w =
     (let w1 = emit (Predict (dataSync x)) w
      in case forward m (shape x, dataSync x) of
           Inl e \<Rightarrow> (Inl e, w1)
         | Inr (Single v) \<Rightarrow> (let (t, w2) = alloc (fst v) (snd v) w1 in (Inr (Single t), w2))
         | Inr (Batch vs) \<Rightarrow> (let (ts, w2) = allocAll vs w1 in (Inr (Batch ts), w2)))"

subsection \<open>The component's state\<close>

datatype operacion = Suma | Resta

record sesion =
  modeloActual :: "LayersModel option"
  operacion :: operacion
  valA :: string
  valB :: string
  resultado :: "string option"
  cargando :: bool
  origenModelo :: string
  mundo :: world

text \<open>The state of the first render, before the effect has run.\<close>

definition inicial :: sesion where
  "inicial =
     \<lparr>modeloActual = None, operacion = Suma, valA = [], valB = [], resultado = None,
      cargando = False, origenModelo = [],
      mundo = \<lparr>nextId = 0, live = {}, trace = []\<rparr>\<rparr>"

subsection \<open>\<open>crearModeloEnMemoria\<close>\<close>

text \<open>
  One dense unit on two inputs, with the kernel \<open>[[w1], [w2]]\<close> and the bias \<open>[0]\<close> written
  into it. The two tensors stay with the model. An exception of the library is a value
  \<open>Inl\<close>; the world is returned in both cases.
\<close>

definition crearModeloEnMemoria :: "operacion \<Rightarrow> world \<Rightarrow> (error + LayersModel) \<times> world" where
  "crearModeloEnMemoria op w =
     (let model = \<lparr>units = 1, inputShape = [2]\<rparr>;
          w1 = Fin 1;
          w2 = (if op = Suma then Fin 1 else Fin (- 1))
      in case tensor2d [[w1], [w2]] w of
           (Inl e, wa) \<Rightarrow> (Inl e, wa)
         | (Inr k, wa) \<Rightarrow>
             (let (b, wb) = tensor1d [Fin 0] wa in (setWeights model [k, b], wb)))"

subsection \<open>\<open>cambiarModelo\<close>\<close>

definition path :: "operacion \<Rightarrow> string" where
  "path op = (if op = Suma then ''/modelo_suma/model.json'' else ''/modelo_resta/model.json'')"

text \<open>
  The function runs up to its \<open>await\<close>: the slot and the result are cleared, \<open>cargando\<close> is
  set, and the load of the file for the current operation is requested.
\<close>

definition cambiarModelo_inicio :: "sesion \<Rightarrow> sesion" where
  "cambiarModelo_inicio s =
     s\<lparr>modeloActual := None, resultado := None, cargando := True, origenModelo := [],
       mundo := emit (LoadLayersModel (path (operacion s))) (emit ConsoleLog (mundo s))\<rparr>"

text \<open>
  The function resumes with the outcome of the load, for the operation \<open>op\<close> it was started
  with: the loaded model is installed, or the \<open>catch\<close> block builds the model in memory.
  The \<open>finally\<close> block clears \<open>cargando\<close> on every path. The second component is the
  exception that escapes the function, if any: only the fallback could raise one.
\<close>

definition cambiarModelo_fin ::
  "operacion
     \<Rightarrow> error + (nat list \<times> number list \<Rightarrow> error + (nat list \<times> number list) prediction)
     \<Rightarrow> sesion \<Rightarrow> sesion \<times> error option" where
  "cambiarModelo_fin op loaded s =
     (case loaded of
        Inr m \<Rightarrow>
          (s\<lparr>modeloActual := Some (Loaded m), origenModelo := ''Archivo JSON'',
             cargando := False, mundo := emit ConsoleLog (mundo s)\<rparr>, None)
      | Inl err \<Rightarrow>
          (case crearModeloEnMemoria op (emit ConsoleWarn (mundo s)) of
             (Inr mSintetico, w) \<Rightarrow>
               (s\<lparr>modeloActual := Some mSintetico,
                  origenModelo := ''Generado en Memoria (Demo)'',
                  cargando := False, mundo := w\<rparr>, None)
           | (Inl e, w) \<Rightarrow> (s\<lparr>cargando := False, mundo := w\<rparr>, Some e)))"

text \<open>A whole resolution with nothing in between.\<close>

definition cambiarModelo ::
  "error + (nat list \<times> number list \<Rightarrow> error + (nat list \<times> number list) prediction)
     \<Rightarrow> sesion \<Rightarrow> sesion \<times> error option" where
  "cambiarModelo loaded s = cambiarModelo_fin (operacion s) loaded (cambiarModelo_inicio s)"

subsection \<open>\<open>calcular\<close>\<close>

text \<open>
  The function is taken as one step, from the press of the button to the end of its
  \<open>finally\<close> block; what else may happen while it waits for the data of the prediction is
  not part of the embedding.
\<close>

text \<open>The text of the notice, with its two accented letters as UTF-8 bytes.\<close>

definition mensajeValidacion :: string where
  "mensajeValidacion =
     ''Por favor ingresa n'' @ [CHR 0xC3, CHR 0xBA] @ ''meros v'' @ [CHR 0xC3, CHR 0xA1] @ ''lidos''"

text \<open>
  The local variables when the \<open>try\<close> block is left: the two tensor variables, which are
  \<open>null\<close> until assigned, and either the text handed to \<open>setResultado\<close> or the exception
  thrown.
\<close>

record intento =
  inputTensor :: "tensor option"
  prediccionTensor :: "tensor prediction option"
  salida :: "error + string"

text \<open>\<open>data[0].toFixed(2)\<close> on a tensor's data; on an empty buffer \<open>data[0]\<close> is undefined.\<close>

definition primerDato :: "(rat \<Rightarrow> string) \<Rightarrow> tensor \<Rightarrow> error + string" where
  "primerDato toString t =
     (case dataSync t of [] \<Rightarrow> Inl TypeError | v # _ \<Rightarrow> toFixed toString v 2)"

definition bloqueTry ::
  "(rat \<Rightarrow> string) \<Rightarrow> LayersModel \<Rightarrow> number \<Rightarrow> number \<Rightarrow> world \<Rightarrow> intento \<times> world" where
  "bloqueTry toString m nA nB w =
     (case tensor2d [[nA, nB]] w of
        (Inl e, w1) \<Rightarrow> (\<lparr>inputTensor = None, prediccionTensor = None, salida = Inl e\<rparr>, w1)
      | (Inr x, w1) \<Rightarrow>
          (case predict m x w1 of
             (Inl e, w2) \<Rightarrow>
               (\<lparr>inputTensor = Some x, prediccionTensor = None, salida = Inl e\<rparr>, w2)
           | (Inr p, w2) \<Rightarrow>
               (\<lparr>inputTensor = Some x, prediccionTensor = Some p,
                 salida =
                   (case p of
                      Batch ts \<Rightarrow>
                        (case ts of [] \<Rightarrow> Inl TypeError | t # _ \<Rightarrow> primerDato toString t)
                    | Single t \<Rightarrow> primerDato toString t)\<rparr>, w2)))"

definition bloqueFinally :: "intento \<Rightarrow> world \<Rightarrow> world" where
  "bloqueFinally r w =
     (let w1 = (case inputTensor r of Some x \<Rightarrow> dispose x w | None \<Rightarrow> w)
      in case prediccionTensor r of
           None \<Rightarrow> w1
         | Some (Batch ts) \<Rightarrow> fold dispose ts w1
         | Some (Single t) \<Rightarrow> dispose t w1)"

definition calcular :: "(rat \<Rightarrow> string) \<Rightarrow> sesion \<Rightarrow> sesion" where
  "calcular toString s =
     (case modeloActual s of
        None \<Rightarrow> s
      | Some m \<Rightarrow>
          if valA s = [] \<or> valB s = [] then s
          else
            (let nA = parseFloat (valA s); nB = parseFloat (valB s)
             in if isNaN nA \<or> isNaN nB then s\<lparr>mundo := emit (Alert mensajeValidacion) (mundo s)\<rparr>
                else
                  (let (r, w) = bloqueTry toString m nA nB (mundo s)
                   in case salida r of
                        Inr texto \<Rightarrow> s\<lparr>resultado := Some texto, mundo := bloqueFinally r w\<rparr>
                      | Inl e \<Rightarrow>
                          s\<lparr>resultado := Some ''Error'',
                            mundo := bloqueFinally r (emit ConsoleError w)\<rparr>)))"

subsection \<open>The session as a sequence of events\<close>

text \<open>
  What can happen to the mounted component: an operation button is pressed, a load that is
  in flight ends with its outcome, a field is edited, the compute button is pressed. Besides
  the state, a configuration lists the resolutions in flight, each with the operation it was
  started for (the value its closure holds). Pressing an operation button is taken together
  with the run of the effect that follows the render. Selecting the operation already
  selected changes nothing, so the effect does not run again. The compute button cannot be
  pressed while it is disabled. An event that cannot happen has no successor.
\<close>

datatype evento =
    Seleccionar operacion
  | Terminar nat "error + (nat list \<times> number list \<Rightarrow> error + (nat list \<times> number list) prediction)"
  | EscribirA string
  | EscribirB string
  | Pulsar

fun paso ::
  "(rat \<Rightarrow> string) \<Rightarrow> evento \<Rightarrow> sesion \<times> operacion list \<Rightarrow> (sesion \<times> operacion list) option" where
  "paso toString (Seleccionar op) (s, enVuelo) =
     (if op = operacion s then Some (s, enVuelo)
      else Some (cambiarModelo_inicio (s\<lparr>operacion := op\<rparr>), enVuelo @ [op]))"
| "paso toString (Terminar i loaded) (s, enVuelo) =
     (if i < length enVuelo
      then Some (fst (cambiarModelo_fin (enVuelo ! i) loaded s), take i enVuelo @ drop (Suc i) enVuelo)
      else None)"
| "paso toString (EscribirA v) (s, enVuelo) = Some (s\<lparr>valA := v\<rparr>, enVuelo)"
| "paso toString (EscribirB v) (s, enVuelo) = Some (s\<lparr>valB := v\<rparr>, enVuelo)"
| "paso toString Pulsar (s, enVuelo) =
     (if modeloActual s = None \<or> cargando s then None else Some (calcular toString s, enVuelo))"

fun ejecutar ::
  "(rat \<Rightarrow> string) \<Rightarrow> evento list \<Rightarrow> sesion \<times> operacion list \<Rightarrow> (sesion \<times> operacion list) option" where
  "ejecutar toString [] c = Some c"
| "ejecutar toString (e # es) c =
     (case paso toString e c of None \<Rightarrow> None | Some c' \<Rightarrow> ejecutar toString es c')"

text \<open>After the first render the effect runs once, for the initial operation.\<close>

definition montado :: "sesion \<times> operacion list" where
  "montado = (cambiarModelo_inicio inicial, [Suma])"

subsection \<open>Notions used to state the properties\<close>

text \<open>
  The lifecycle of the model as the page shows it: the badge reads \<open>Cargando...\<close> while
  \<open>cargando\<close> is set, and otherwise the origin of the model in the slot, if there is one.
\<close>

datatype procedencia = Archivo | Memoria

datatype fase = Idle | Loading | Ready procedencia

definition fase :: "sesion \<Rightarrow> fase" where
  "fase s =
     (if cargando s then Loading
      else case modeloActual s of
             None \<Rightarrow> Idle
           | Some (Loaded f) \<Rightarrow> Ready Archivo
           | Some (Sequential a k b) \<Rightarrow> Ready Memoria)"

text \<open>
  What holds of every configuration of a mounted component: it is not idle, while
  \<open>cargando\<close> is set the slot is empty and some resolution is in flight, and otherwise the
  origin shown is that of the model in the slot.
\<close>

definition coherente :: "sesion \<times> operacion list \<Rightarrow> bool" where
  "coherente c =
     (case fase (fst c) of
        Idle \<Rightarrow> False
      | Loading \<Rightarrow> modeloActual (fst c) = None \<and> snd c \<noteq> []
      | Ready Archivo \<Rightarrow> origenModelo (fst c) = ''Archivo JSON''
      | Ready Memoria \<Rightarrow> origenModelo (fst c) = ''Generado en Memoria (Demo)'')"

text \<open>
  The tensors a model holds as weights. Those of a model read from a file are created
  inside the loader and are not followed here.
\<close>

definition pesos :: "LayersModel \<Rightarrow> nat set" where
  "pesos m = (case m of Sequential a k b \<Rightarrow> {ident k, ident b} | Loaded f \<Rightarrow> {})"

definition pesosActuales :: "sesion \<Rightarrow> nat set" where
  "pesosActuales s = (case modeloActual s of None \<Rightarrow> {} | Some m \<Rightarrow> pesos m)"

text \<open>The engine never hands out an identifier twice: live tensors lie below the counter.\<close>

definition bienFormado :: "world \<Rightarrow> bool" where
  "bienFormado w = (\<forall>i \<in> live w. i < nextId w)"

text \<open>
  The session of the scenarios: the operation \<open>op\<close> is selected, the file is absent, so the
  load fails and the model is built in memory, and the two fields read \<open>a\<close> and \<open>b\<close>.
\<close>

definition escenario :: "operacion \<Rightarrow> string \<Rightarrow> string \<Rightarrow> sesion" where
  "escenario op a b =
     (fst (cambiarModelo (Inl LoadError) (inicial\<lparr>operacion := op\<rparr>)))\<lparr>valA := a, valB := b\<rparr>"

text \<open>
  A session whose file is present: the load succeeds with a model whose forward pass is
  \<open>f\<close>, and the two fields read \<open>a\<close> and \<open>b\<close>. The forward pass \<open>tresEntradas\<close> is that of
  a dense layer on three inputs, which rejects the page's input of two.
\<close>

definition escenarioArchivo ::
  "(nat list \<times> number list \<Rightarrow> error + (nat list \<times> number list) prediction)
     \<Rightarrow> string \<Rightarrow> string \<Rightarrow> sesion" where
  "escenarioArchivo f a b = (fst (cambiarModelo (Inr f) inicial))\<lparr>valA := a, valB := b\<rparr>"

definition tresEntradas ::
  "nat list \<times> number list \<Rightarrow> error + (nat list \<times> number list) prediction" where
  "tresEntradas =
     denseCall \<lparr>units = 1, inputShape = [3]\<rparr>
       \<lparr>ident = 0, shape = [3, 1], dataSync = [Fin 1, Fin 1, Fin 1]\<rparr>
       \<lparr>ident = 1, shape = [1], dataSync = [Fin 0]\<rparr>"

text \<open>
  A conversion to put in place of the parameter of \<open>toFixed\<close> where a concrete session is
  evaluated; the values there stay below \<open>10 ^ 21\<close>, so it is never applied.
\<close>

definition enteroATexto :: "rat \<Rightarrow> string" where
  "enteroATexto q = decimalDigits (nat \<lfloor>q\<rfloor>)"

text \<open>
  The tensors created in the \<open>try\<close> block of \<open>calcular\<close>: those its two variables hold
  when the block is left.
\<close>

definition creados :: "intento \<Rightarrow> nat set" where
  "creados r =
     (case inputTensor r of None \<Rightarrow> {} | Some x \<Rightarrow> {ident x})
     \<union> (case prediccionTensor r of
          None \<Rightarrow> {}
        | Some (Single t) \<Rightarrow> {ident t}
        | Some (Batch ts) \<Rightarrow> ident ` set ts)"

section \<open>Properties\<close>

subsection \<open>The model built in memory\<close>

lemma crearModeloEnMemoria_eq:
  "crearModeloEnMemoria op w =
     (Inr (Sequential \<lparr>units = 1, inputShape = [2]\<rparr>
             \<lparr>ident = nextId w, shape = [2, 1],
              dataSync = [Fin 1, if op = Suma then Fin 1 else Fin (- 1)]\<rparr>
             \<lparr>ident = Suc (nextId w), shape = [1], dataSync = [Fin 0]\<rparr>),
      w\<lparr>nextId := Suc (Suc (nextId w)),
        live := insert (Suc (nextId w)) (insert (nextId w) (live w))\<rparr>)"
  by (simp add: crearModeloEnMemoria_def tensor2d_def tensor1d_def alloc_def setWeights_def Let_def)




subsection \<open>One prediction\<close>


lemma tensor2d_par:
  "tensor2d [[x, y]] w =
     (Inr \<lparr>ident = nextId w, shape = [1, 2], dataSync = [x, y]\<rparr>,
      w\<lparr>nextId := Suc (nextId w), live := insert (nextId w) (live w)\<rparr>)"
  by (simp add: tensor2d_def alloc_def)





subsection \<open>The scenario sessions\<close>

lemma escenario_modelo:
  "modeloActual (escenario op a b) =
     Some (Sequential \<lparr>units = 1, inputShape = [2]\<rparr>
             \<lparr>ident = 0, shape = [2, 1],
              dataSync = [Fin 1, if op = Suma then Fin 1 else Fin (- 1)]\<rparr>
             \<lparr>ident = 1, shape = [1], dataSync = [Fin 0]\<rparr>)"
  by (simp add: escenario_def cambiarModelo_def cambiarModelo_fin_def cambiarModelo_inicio_def
      crearModeloEnMemoria_eq inicial_def emit_def)

lemma escenario_campos:
  "valA (escenario op a b) = a" "valB (escenario op a b) = b"
  "origenModelo (escenario op a b) = ''Generado en Memoria (Demo)''"
  by (simp_all add: escenario_def cambiarModelo_def cambiarModelo_fin_def cambiarModelo_inicio_def
      crearModeloEnMemoria_eq inicial_def emit_def)


subsection \<open>The text \<open>toFixed(2)\<close> writes\<close>







subsection \<open>Addition with the model built in memory\<close>




subsection \<open>Subtraction with the model built in memory\<close>



subsection \<open>Resolution always ends with a model\<close>

lemma cambiarModelo_fin_fallo:
  "cambiarModelo_fin op (Inl err) s =
     (s\<lparr>modeloActual := Some (Sequential \<lparr>units = 1, inputShape = [2]\<rparr>
             \<lparr>ident = nextId (mundo s), shape = [2, 1],
              dataSync = [Fin 1, if op = Suma then Fin 1 else Fin (- 1)]\<rparr>
             \<lparr>ident = Suc (nextId (mundo s)), shape = [1], dataSync = [Fin 0]\<rparr>),
        origenModelo := ''Generado en Memoria (Demo)'', cargando := False,
        mundo := (mundo s)\<lparr>nextId := Suc (Suc (nextId (mundo s))),
           live := insert (Suc (nextId (mundo s))) (insert (nextId (mundo s)) (live (mundo s))),
           trace := trace (mundo s) @ [ConsoleWarn]\<rparr>\<rparr>, None)"
  by (simp add: cambiarModelo_fin_def crearModeloEnMemoria_eq emit_def)

lemma cambiarModelo_fin_exito:
  "cambiarModelo_fin op (Inr f) s =
     (s\<lparr>modeloActual := Some (Loaded f), origenModelo := ''Archivo JSON'', cargando := False,
        mundo := (mundo s)\<lparr>trace := trace (mundo s) @ [ConsoleLog]\<rparr>\<rparr>, None)"
  by (simp add: cambiarModelo_fin_def emit_def)

lemma cambiarModelo_fin_modelo:
  "modeloActual (fst (cambiarModelo_fin op loaded s)) \<noteq> None"
  "\<not> cargando (fst (cambiarModelo_fin op loaded s))"
  "snd (cambiarModelo_fin op loaded s) = None"
  by (cases loaded; simp add: cambiarModelo_fin_fallo cambiarModelo_fin_exito)+

text \<open>
  C3. Building the model in memory never raises and calls nothing that can be observed
  (no load, no retry); so whatever the outcome of the load, the resumed \<open>cambiarModelo\<close>
  lets no exception escape and leaves a model in the slot with \<open>cargando\<close> cleared. This
  holds for a resolution on its own and for the end of any resolution in a session. After
  a failed load the only call added to the trace is the warning.
\<close>

theorem resolucion_termina_con_modelo:
  "(\<exists>m. fst (crearModeloEnMemoria op w) = Inr m)
   \<and> trace (snd (crearModeloEnMemoria op w)) = trace w
   \<and> snd (cambiarModelo_fin op loaded s) = None
   \<and> modeloActual (fst (cambiarModelo_fin op loaded s)) \<noteq> None
   \<and> \<not> cargando (fst (cambiarModelo_fin op loaded s))
   \<and> trace (mundo (fst (cambiarModelo_fin op (Inl err) s))) = trace (mundo s) @ [ConsoleWarn]
   \<and> snd (cambiarModelo loaded s) = None
   \<and> modeloActual (fst (cambiarModelo loaded s)) \<noteq> None
   \<and> (\<forall>i c. paso toString (Terminar i loaded) (s, enVuelo) = Some c \<longrightarrow> modeloActual (fst c) \<noteq> None)"
proof (intro conjI allI impI)
  show "\<exists>m. fst (crearModeloEnMemoria op w) = Inr m"
    by (simp add: crearModeloEnMemoria_eq)
  show "trace (snd (crearModeloEnMemoria op w)) = trace w"
    by (simp add: crearModeloEnMemoria_eq)
  show "snd (cambiarModelo_fin op loaded s) = None"
    by (rule cambiarModelo_fin_modelo)
  show "modeloActual (fst (cambiarModelo_fin op loaded s)) \<noteq> None"
    by (rule cambiarModelo_fin_modelo)
  show "\<not> cargando (fst (cambiarModelo_fin op loaded s))"
    by (rule cambiarModelo_fin_modelo)
  show "trace (mundo (fst (cambiarModelo_fin op (Inl err) s))) = trace (mundo s) @ [ConsoleWarn]"
    by (simp add: cambiarModelo_fin_fallo)
  show "snd (cambiarModelo loaded s) = None"
    unfolding cambiarModelo_def by (rule cambiarModelo_fin_modelo)
  show "modeloActual (fst (cambiarModelo loaded s)) \<noteq> None"
    unfolding cambiarModelo_def by (rule cambiarModelo_fin_modelo)
next
  fix i c
  assume "paso toString (Terminar i loaded) (s, enVuelo) = Some c"
  then have "c = (fst (cambiarModelo_fin (enVuelo ! i) loaded s), take i enVuelo @ drop (Suc i) enVuelo)"
    by (simp split: if_splits)
  then show "modeloActual (fst c) \<noteq> None"
    using cambiarModelo_fin_modelo(1) [of "enVuelo ! i" loaded s] by simp
qed

theorem resolucion_termina_con_modelo_witness:
  "paso enteroATexto (Terminar 0 (Inl LoadError)) montado
     = Some (fst (cambiarModelo_fin Suma (Inl LoadError) (cambiarModelo_inicio inicial)), [])
   \<and> modeloActual (fst (cambiarModelo_fin Suma (Inl LoadError) (cambiarModelo_inicio inicial))) \<noteq> None
   \<and> snd (cambiarModelo_fin Suma (Inl LoadError) (cambiarModelo_inicio inicial)) = None"
proof -
  have p: "paso enteroATexto (Terminar 0 (Inl LoadError)) (cambiarModelo_inicio inicial, [Suma])
     = Some (fst (cambiarModelo_fin Suma (Inl LoadError) (cambiarModelo_inicio inicial)), [])"
    by simp
  from resolucion_termina_con_modelo [of Suma "mundo inicial" "Inl LoadError"
      "cambiarModelo_inicio inicial" LoadError enteroATexto "[Suma]"]
  have "snd (cambiarModelo_fin Suma (Inl LoadError) (cambiarModelo_inicio inicial)) = None"
    and "\<forall>i c. paso enteroATexto (Terminar i (Inl LoadError)) (cambiarModelo_inicio inicial, [Suma])
           = Some c \<longrightarrow> modeloActual (fst c) \<noteq> None"
    by blast+
  with p show ?thesis
    unfolding montado_def by (metis fst_conv)
qed


subsection \<open>The world across one call of \<open>calcular\<close>\<close>

lemma intervalo_Suc:
  "insert n (A \<union> {Suc n..<Suc (n + k)}) = A \<union> {n..<Suc (n + k)}"
  "insert n {Suc n..<Suc (n + k)} = {n..<Suc (n + k)}"
  by auto

lemma allocAll_mundo:
  "allocAll vs w = (ts, w') \<Longrightarrow>
     nextId w' = nextId w + length vs
     \<and> live w' = live w \<union> {nextId w..<nextId w + length vs}
     \<and> trace w' = trace w
     \<and> ident ` set ts = {nextId w..<nextId w + length vs}"
proof (induction vs arbitrary: w ts w')
  case Nil
  then show ?case
    by auto
next
  case (Cons v vs)
  let ?w1 = "w\<lparr>nextId := Suc (nextId w), live := insert (nextId w) (live w)\<rparr>"
  obtain ts' where a: "allocAll vs ?w1 = (ts', w')"
    and ts: "ts = \<lparr>ident = nextId w, shape = fst v, dataSync = snd v\<rparr> # ts'"
    using Cons.prems by (auto simp add: alloc_def Let_def split: prod.splits)
  from Cons.IH [OF a]
  have n: "nextId w' = Suc (nextId w + length vs)"
    and l: "live w' = insert (nextId w) (live w) \<union> {Suc (nextId w)..<Suc (nextId w + length vs)}"
    and t: "trace w' = trace w"
    and i: "ident ` set ts' = {Suc (nextId w)..<Suc (nextId w + length vs)}"
    by simp_all
  have i': "ident ` set ts = {nextId w..<Suc (nextId w + length vs)}"
    using ts i by (simp add: intervalo_Suc)
  show ?case
    using n l t i' by (simp add: intervalo_Suc)
qed

lemma fold_dispose_mundo:
  "nextId (fold dispose ts w) = nextId w"
  "trace (fold dispose ts w) = trace w"
  "live (fold dispose ts w) = live w - ident ` set ts"
  by (induction ts arbitrary: w; auto simp add: dispose_def)+

lemma bloqueFinally_eq: "bloqueFinally r w = w\<lparr>live := live w - creados r\<rparr>"
proof -
  have "nextId (bloqueFinally r w) = nextId w" "trace (bloqueFinally r w) = trace w"
    "live (bloqueFinally r w) = live w - creados r"
    by (auto simp add: bloqueFinally_def creados_def dispose_def fold_dispose_mundo Let_def
        split: option.splits prediction.splits)
  then show ?thesis
    by simp
qed

lemma bloqueTry_mundo:
  assumes "bloqueTry toString m nA nB w = (r, w')"
  shows "trace w' = trace w @ [Predict [nA, nB]]"
    and "nextId w < nextId w'"
    and "live w' = live w \<union> creados r"
    and "creados r = {nextId w..<nextId w'}"
proof -
  let ?x = "\<lparr>ident = nextId w, shape = [1, 2], dataSync = [nA, nB]\<rparr>"
  let ?w1 = "w\<lparr>nextId := Suc (nextId w), live := insert (nextId w) (live w)\<rparr>"
  let ?w2 = "emit (Predict [nA, nB]) ?w1"
  have all: "trace w' = trace w @ [Predict [nA, nB]] \<and> nextId w < nextId w'
      \<and> live w' = live w \<union> creados r \<and> creados r = {nextId w..<nextId w'}"
  proof (cases "forward m ([1, 2], [nA, nB])")
    case (Inl e)
    then have "r = \<lparr>inputTensor = Some ?x, prediccionTensor = None, salida = Inl e\<rparr>" "w' = ?w2"
      using assms by (simp_all add: bloqueTry_def tensor2d_par predict_def)
    then show ?thesis
      by (auto simp add: creados_def emit_def)
  next
    case (Inr p)
    show ?thesis
    proof (cases p)
      case (Single v)
      then have "inputTensor r = Some ?x"
        "prediccionTensor r = Some (Single \<lparr>ident = Suc (nextId w), shape = fst v, dataSync = snd v\<rparr>)"
        "w' = ?w2\<lparr>nextId := Suc (Suc (nextId w)), live := insert (Suc (nextId w)) (live ?w2)\<rparr>"
        using assms Inr
        by (auto simp add: bloqueTry_def tensor2d_par predict_def alloc_def emit_def)
      then show ?thesis
        by (auto simp add: creados_def emit_def)
    next
      case (Batch vs)
      obtain ts w3 where a: "allocAll vs ?w2 = (ts, w3)"
        by (cases "allocAll vs ?w2")
      then have "inputTensor r = Some ?x" "prediccionTensor r = Some (Batch ts)" "w' = w3"
        using assms Inr Batch
        by (auto simp add: bloqueTry_def tensor2d_par predict_def)
      then show ?thesis
        using allocAll_mundo [OF a]
        by (simp add: creados_def emit_def intervalo_Suc)
    qed
  qed
  show "trace w' = trace w @ [Predict [nA, nB]]" "nextId w < nextId w'"
    "live w' = live w \<union> creados r" "creados r = {nextId w..<nextId w'}"
    using all by blast+
qed

text \<open>What the \<open>try\<close> block hands to \<open>setResultado\<close> depends on the forward pass alone.\<close>

lemma bloqueTry_salida:
  "salida (fst (bloqueTry toString m nA nB w)) =
     (case forward m ([1, 2], [nA, nB]) of
        Inl e \<Rightarrow> Inl e
      | Inr (Single v) \<Rightarrow>
          (case snd v of [] \<Rightarrow> Inl TypeError | x # _ \<Rightarrow> toFixed toString x 2)
      | Inr (Batch vs) \<Rightarrow>
          (case vs of
             [] \<Rightarrow> Inl TypeError
           | v # _ \<Rightarrow> (case snd v of [] \<Rightarrow> Inl TypeError | x # _ \<Rightarrow> toFixed toString x 2)))"
proof (cases "forward m ([1, 2], [nA, nB])")
  case (Inl e)
  then show ?thesis
    by (simp add: bloqueTry_def tensor2d_par predict_def)
next
  case (Inr p)
  show ?thesis
  proof (cases p)
    case (Single v)
    then show ?thesis
      using Inr by (simp add: bloqueTry_def tensor2d_par predict_def alloc_def primerDato_def Let_def)
  next
    case (Batch vs)
    show ?thesis
    proof (cases vs)
      case Nil
      then show ?thesis
        using Inr Batch by (simp add: bloqueTry_def tensor2d_par predict_def)
    next
      case (Cons v vs')
      then show ?thesis
        using Inr Batch
        by (simp add: bloqueTry_def tensor2d_par predict_def alloc_def primerDato_def Let_def
            split: prod.splits)
    qed
  qed
qed

lemma calcular_valido:
  assumes "modeloActual s = Some m" and "valA s \<noteq> []" and "valB s \<noteq> []"
    and "\<not> isNaN (parseFloat (valA s))" and "\<not> isNaN (parseFloat (valB s))"
    and "bloqueTry toString m (parseFloat (valA s)) (parseFloat (valB s)) (mundo s) = (r, w')"
  shows "calcular toString s =
           s\<lparr>resultado := Some (case salida r of Inr texto \<Rightarrow> texto | Inl e \<Rightarrow> ''Error''),
             mundo := w'\<lparr>live := live (mundo s) - {nextId (mundo s)..<nextId w'},
                        trace := trace (mundo s)
                          @ Predict [parseFloat (valA s), parseFloat (valB s)]
                          # (case salida r of Inr texto \<Rightarrow> [] | Inl e \<Rightarrow> [ConsoleError])\<rparr>\<rparr>"
proof -
  have l: "live w' - creados r = live (mundo s) - {nextId (mundo s)..<nextId w'}"
    using bloqueTry_mundo(3,4) [OF assms(6)] by auto
  show ?thesis
    using assms l bloqueTry_mundo(1) [OF assms(6)]
    by (cases "salida r") (simp_all add: calcular_def bloqueFinally_eq emit_def)
qed


lemma calcular_sin_efecto:
  assumes "modeloActual s = None \<or> valA s = [] \<or> valB s = []"
  shows "calcular toString s = s"
  using assms by (auto simp add: calcular_def split: option.splits)

lemma calcular_aviso:
  assumes "modeloActual s \<noteq> None" and "valA s \<noteq> []" and "valB s \<noteq> []"
    and "isNaN (parseFloat (valA s)) \<or> isNaN (parseFloat (valB s))"
  shows "calcular toString s = s\<lparr>mundo := emit (Alert mensajeValidacion) (mundo s)\<rparr>"
  using assms by (auto simp add: calcular_def Let_def split: option.splits)

subsection \<open>Input that is not a number\<close>

text \<open>
  C4, as the code has it. When a field is empty or does not parse to a number, \<open>calcular\<close>
  computes nothing: \<open>predict\<close> is not called, the displayed result stays as it was, no tensor
  is created and the state of the component does not change. The notice is raised exactly when
  a model is present and both fields are non-empty; with an empty field, or without a model,
  the call returns silently.
\<close>

theorem entrada_invalida:
  assumes "valA s = [] \<or> valB s = [] \<or> isNaN (parseFloat (valA s)) \<or> isNaN (parseFloat (valB s))"
  shows "calcular toString s =
           (if modeloActual s \<noteq> None \<and> valA s \<noteq> [] \<and> valB s \<noteq> []
            then s\<lparr>mundo := (mundo s)\<lparr>trace := trace (mundo s) @ [Alert mensajeValidacion]\<rparr>\<rparr>
            else s)
       \<and> resultado (calcular toString s) = resultado s
       \<and> nextId (mundo (calcular toString s)) = nextId (mundo s)
       \<and> live (mundo (calcular toString s)) = live (mundo s)
       \<and> trace (mundo (calcular toString s)) =
           trace (mundo s) @ (if modeloActual s \<noteq> None \<and> valA s \<noteq> [] \<and> valB s \<noteq> []
                              then [Alert mensajeValidacion] else [])"
proof (cases "modeloActual s \<noteq> None \<and> valA s \<noteq> [] \<and> valB s \<noteq> []")
  case True
  then have "calcular toString s = s\<lparr>mundo := emit (Alert mensajeValidacion) (mundo s)\<rparr>"
    using assms calcular_aviso [of s toString] by auto
  then show ?thesis
    using True by (simp add: emit_def)
next
  case False
  then have "calcular toString s = s"
    using calcular_sin_efecto [of s toString] by auto
  then show ?thesis
    using False by auto
qed

theorem entrada_invalida_witness:
  "parseFloat ''abc'' = NaN
   \<and> calcular enteroATexto (escenario Suma ''abc'' ''5'') =
       (escenario Suma ''abc'' ''5'')
         \<lparr>mundo := (mundo (escenario Suma ''abc'' ''5''))
            \<lparr>trace := trace (mundo (escenario Suma ''abc'' ''5'')) @ [Alert mensajeValidacion]\<rparr>\<rparr>
   \<and> resultado (calcular enteroATexto (escenario Suma ''abc'' ''5'')) = None"
proof -
  have a: "parseFloat ''abc'' = NaN"
    by code_simp
  have r: "resultado (escenario Suma ''abc'' ''5'') = None"
    by (simp add: escenario_def cambiarModelo_def cambiarModelo_fin_fallo cambiarModelo_inicio_def
        inicial_def)
  show ?thesis
    using entrada_invalida [of "escenario Suma ''abc'' ''5''" enteroATexto] a r
    by (simp add: escenario_campos escenario_modelo isNaN_def)
qed

text \<open>
  C4 as the specification words it fails on an empty field: with a model in the slot, the
  first field empty and the second \<open>5\<close>, \<open>calcular\<close> changes nothing and no notice is
  raised.
\<close>

theorem entrada_vacia_sin_aviso:
  "modeloActual (escenario Suma [] ''5'') \<noteq> None
   \<and> valA (escenario Suma [] ''5'') = []
   \<and> calcular enteroATexto (escenario Suma [] ''5'') = escenario Suma [] ''5''
   \<and> Alert mensajeValidacion \<notin> set (trace (mundo (calcular enteroATexto (escenario Suma [] ''5''))))"
proof -
  have "calcular enteroATexto (escenario Suma [] ''5'') = escenario Suma [] ''5''"
    by (rule calcular_sin_efecto) (simp add: escenario_campos)
  moreover have "trace (mundo (escenario Suma [] ''5''))
      = [ConsoleLog, LoadLayersModel ''/modelo_suma/model.json'', ConsoleWarn]"
    by (simp add: escenario_def cambiarModelo_def cambiarModelo_fin_fallo cambiarModelo_inicio_def
        inicial_def emit_def path_def)
  ultimately show ?thesis
    by (simp add: escenario_campos escenario_modelo)
qed


subsection \<open>Tensors are released on every path\<close>

lemma calcular_mundo:
  "nextId (mundo s) \<le> nextId (mundo (calcular toString s))
   \<and> live (mundo (calcular toString s))
       = live (mundo s) - {nextId (mundo s)..<nextId (mundo (calcular toString s))}"
proof (cases "modeloActual s = None \<or> valA s = [] \<or> valB s = []")
  case True
  then show ?thesis
    by (simp add: calcular_sin_efecto)
next
  case False
  then obtain m where m: "modeloActual s = Some m" and a: "valA s \<noteq> []" and b: "valB s \<noteq> []"
    by auto
  show ?thesis
  proof (cases "isNaN (parseFloat (valA s)) \<or> isNaN (parseFloat (valB s))")
    case True
    then show ?thesis
      using calcular_aviso [of s toString] m a b by (simp add: emit_def)
  next
    case False
    then have na: "\<not> isNaN (parseFloat (valA s))" and nb: "\<not> isNaN (parseFloat (valB s))"
      by auto
    obtain r w' where
      t: "bloqueTry toString m (parseFloat (valA s)) (parseFloat (valB s)) (mundo s) = (r, w')"
      by (cases "bloqueTry toString m (parseFloat (valA s)) (parseFloat (valB s)) (mundo s)")
    have "nextId (mundo s) < nextId w'"
      using bloqueTry_mundo(2) [OF t] .
    then show ?thesis
      by (simp add: calcular_valido [OF m a b na nb t])
  qed
qed

text \<open>
  C6. Whatever path \<open>calcular\<close> takes (early return, validation notice, success, exception
  in the \<open>try\<close> block), every tensor created during the call has been disposed when it
  returns: no identifier handed out by the call is live afterwards, and nothing is live that
  was not live before. Where the engine's identifiers are fresh, the live tensors after the
  call are exactly those before it.
\<close>

theorem calcular_libera_tensores:
  "(\<forall>i. nextId (mundo s) \<le> i \<and> i < nextId (mundo (calcular toString s))
        \<longrightarrow> i \<notin> live (mundo (calcular toString s)))
   \<and> live (mundo (calcular toString s)) \<subseteq> live (mundo s)
   \<and> (bienFormado (mundo s) \<longrightarrow>
        live (mundo (calcular toString s)) = live (mundo s)
        \<and> bienFormado (mundo (calcular toString s)))"
proof -
  have n: "nextId (mundo s) \<le> nextId (mundo (calcular toString s))"
    and l: "live (mundo (calcular toString s))
       = live (mundo s) - {nextId (mundo s)..<nextId (mundo (calcular toString s))}"
    using calcular_mundo [of s toString] by blast+
  have "\<forall>i. nextId (mundo s) \<le> i \<and> i < nextId (mundo (calcular toString s))
        \<longrightarrow> i \<notin> live (mundo (calcular toString s))"
    unfolding l by simp
  moreover have "live (mundo (calcular toString s)) \<subseteq> live (mundo s)"
    unfolding l by blast
  moreover have "bienFormado (mundo s) \<longrightarrow>
        live (mundo (calcular toString s)) = live (mundo s)
        \<and> bienFormado (mundo (calcular toString s))"
  proof
    assume w: "bienFormado (mundo s)"
    then have e: "live (mundo (calcular toString s)) = live (mundo s)"
      unfolding l bienFormado_def by fastforce
    with w n have "bienFormado (mundo (calcular toString s))"
      unfolding bienFormado_def by fastforce
    with e show "live (mundo (calcular toString s)) = live (mundo s)
        \<and> bienFormado (mundo (calcular toString s))"
      by simp
  qed
  ultimately show ?thesis
    by blast
qed

theorem calcular_libera_tensores_witness:
  "bienFormado (mundo (escenario Suma ''2'' ''3''))
   \<and> live (mundo (escenario Suma ''2'' ''3'')) = {0, 1}
   \<and> nextId (mundo (escenario Suma ''2'' ''3'')) = 2
   \<and> nextId (mundo (calcular enteroATexto (escenario Suma ''2'' ''3''))) = 4
   \<and> live (mundo (calcular enteroATexto (escenario Suma ''2'' ''3''))) = {0, 1}"
proof -
  have m: "mundo (escenario Suma ''2'' ''3'') =
      \<lparr>nextId = 2, live = {0, 1},
       trace = [ConsoleLog, LoadLayersModel ''/modelo_suma/model.json'', ConsoleWarn]\<rparr>"
    by (simp add: escenario_def cambiarModelo_def cambiarModelo_fin_fallo cambiarModelo_inicio_def
        inicial_def emit_def path_def insert_commute)
  have w: "bienFormado (mundo (escenario Suma ''2'' ''3''))"
    by (simp add: m bienFormado_def)
  have n: "nextId (mundo (calcular enteroATexto (escenario Suma ''2'' ''3''))) = 4"
    by code_simp
  show ?thesis
    using calcular_libera_tensores [of "escenario Suma ''2'' ''3''" enteroATexto] w n
    by (simp add: m)
qed


subsection \<open>What is displayed depends on the model and the two fields only\<close>

lemma calcular_resultado_valido:
  assumes "modeloActual s = Some m" and "valA s \<noteq> []" and "valB s \<noteq> []"
    and "\<not> isNaN (parseFloat (valA s))" and "\<not> isNaN (parseFloat (valB s))"
  shows "resultado (calcular toString s) =
           Some (case salida (fst (bloqueTry toString m (parseFloat (valA s)) (parseFloat (valB s))
                                     (mundo s))) of
                   Inr texto \<Rightarrow> texto | Inl e \<Rightarrow> ''Error'')"
    and "trace (mundo (calcular toString s)) =
           trace (mundo s) @ Predict [parseFloat (valA s), parseFloat (valB s)]
             # (case salida (fst (bloqueTry toString m (parseFloat (valA s)) (parseFloat (valB s))
                                     (mundo s))) of
                  Inr texto \<Rightarrow> [] | Inl e \<Rightarrow> [ConsoleError])"
    and "modeloActual (calcular toString s) = modeloActual s"
    and "operacion (calcular toString s) = operacion s"
    and "valA (calcular toString s) = valA s"
    and "valB (calcular toString s) = valB s"
    and "cargando (calcular toString s) = cargando s"
    and "origenModelo (calcular toString s) = origenModelo s"
proof -
  obtain r w' where
    t: "bloqueTry toString m (parseFloat (valA s)) (parseFloat (valB s)) (mundo s) = (r, w')"
    by (cases "bloqueTry toString m (parseFloat (valA s)) (parseFloat (valB s)) (mundo s)")
  note c = calcular_valido [OF assms t]
  show "resultado (calcular toString s) =
           Some (case salida (fst (bloqueTry toString m (parseFloat (valA s)) (parseFloat (valB s))
                                     (mundo s))) of
                   Inr texto \<Rightarrow> texto | Inl e \<Rightarrow> ''Error'')"
    by (simp add: c t)
  show "trace (mundo (calcular toString s)) =
           trace (mundo s) @ Predict [parseFloat (valA s), parseFloat (valB s)]
             # (case salida (fst (bloqueTry toString m (parseFloat (valA s)) (parseFloat (valB s))
                                     (mundo s))) of
                  Inr texto \<Rightarrow> [] | Inl e \<Rightarrow> [ConsoleError])"
    by (simp add: c t)
  show "modeloActual (calcular toString s) = modeloActual s"
    "operacion (calcular toString s) = operacion s"
    "valA (calcular toString s) = valA s"
    "valB (calcular toString s) = valB s"
    "cargando (calcular toString s) = cargando s"
    "origenModelo (calcular toString s) = origenModelo s"
    by (simp_all add: c)
qed

lemma bloqueTry_salida_mundo:
  "salida (fst (bloqueTry toString m nA nB w)) = salida (fst (bloqueTry toString m nA nB w'))"
  by (simp add: bloqueTry_salida)

lemma calcular_conserva:
  "modeloActual (calcular toString s) = modeloActual s"
  "valA (calcular toString s) = valA s"
  "valB (calcular toString s) = valB s"
  "cargando (calcular toString s) = cargando s"
  "operacion (calcular toString s) = operacion s"
  "origenModelo (calcular toString s) = origenModelo s"
proof -
  have "modeloActual (calcular toString s) = modeloActual s
      \<and> valA (calcular toString s) = valA s \<and> valB (calcular toString s) = valB s
      \<and> cargando (calcular toString s) = cargando s
      \<and> operacion (calcular toString s) = operacion s
      \<and> origenModelo (calcular toString s) = origenModelo s"
  proof (cases "modeloActual s = None \<or> valA s = [] \<or> valB s = []")
    case True
    then show ?thesis
      by (simp add: calcular_sin_efecto)
  next
    case False
    then obtain m where m: "modeloActual s = Some m" and a: "valA s \<noteq> []" and b: "valB s \<noteq> []"
      by auto
    show ?thesis
    proof (cases "isNaN (parseFloat (valA s)) \<or> isNaN (parseFloat (valB s))")
      case True
      then show ?thesis
        using calcular_aviso [of s toString] m a b by simp
    next
      case False
      then have "\<not> isNaN (parseFloat (valA s))" and "\<not> isNaN (parseFloat (valB s))"
        by auto
      then show ?thesis
        using calcular_resultado_valido(3-8) [OF m a b, of toString] by simp
    qed
  qed
  then show "modeloActual (calcular toString s) = modeloActual s"
    "valA (calcular toString s) = valA s"
    "valB (calcular toString s) = valB s"
    "cargando (calcular toString s) = cargando s"
    "operacion (calcular toString s) = operacion s"
    "origenModelo (calcular toString s) = origenModelo s"
    by simp_all
qed

lemma calcular_mismo_resultado:
  assumes "modeloActual s1 = modeloActual s2" and "valA s1 = valA s2" and "valB s1 = valB s2"
    and "modeloActual s1 \<noteq> None" and "valA s1 \<noteq> []" and "valB s1 \<noteq> []"
    and "\<not> isNaN (parseFloat (valA s1))" and "\<not> isNaN (parseFloat (valB s1))"
  shows "resultado (calcular toString s1) = resultado (calcular toString s2)"
proof -
  obtain m where m: "modeloActual s1 = Some m"
    using assms(4) by auto
  have "resultado (calcular toString s1) =
           Some (case salida (fst (bloqueTry toString m (parseFloat (valA s1)) (parseFloat (valB s1))
                                     (mundo s1))) of
                   Inr texto \<Rightarrow> texto | Inl e \<Rightarrow> ''Error'')"
    using calcular_resultado_valido(1) [OF m assms(5,6,7,8)] .
  moreover have "resultado (calcular toString s2) =
           Some (case salida (fst (bloqueTry toString m (parseFloat (valA s2)) (parseFloat (valB s2))
                                     (mundo s2))) of
                   Inr texto \<Rightarrow> texto | Inl e \<Rightarrow> ''Error'')"
    using calcular_resultado_valido(1) [of s2 m toString] m assms by simp
  ultimately show ?thesis
    using assms(2,3) bloqueTry_salida_mundo [of toString m _ _ "mundo s1" "mundo s2"] by simp
qed

text \<open>
  C9. Pressing the button twice in a row displays the same text the second time as the
  first. More generally, in two sessions with the same model in the slot and the same two
  fields, where a prediction runs (a model is present and both fields are non-empty and parse
  to numbers), \<open>calcular\<close> displays the same text, whatever else differs: the text shown
  before, the selected operation, the flags, the engine's counter and live tensors, the trace.
\<close>

theorem calcular_determinista:
  "resultado (calcular toString (calcular toString s)) = resultado (calcular toString s)
   \<and> (modeloActual s1 = modeloActual s2 \<and> valA s1 = valA s2 \<and> valB s1 = valB s2
        \<and> modeloActual s1 \<noteq> None \<and> valA s1 \<noteq> [] \<and> valB s1 \<noteq> []
        \<and> \<not> isNaN (parseFloat (valA s1)) \<and> \<not> isNaN (parseFloat (valB s1))
      \<longrightarrow> resultado (calcular toString s1) = resultado (calcular toString s2))"
proof
  show "resultado (calcular toString (calcular toString s)) = resultado (calcular toString s)"
  proof (cases "modeloActual s \<noteq> None \<and> valA s \<noteq> [] \<and> valB s \<noteq> []
      \<and> \<not> isNaN (parseFloat (valA s)) \<and> \<not> isNaN (parseFloat (valB s))")
    case True
    then show ?thesis
      using calcular_mismo_resultado [of "calcular toString s" s toString]
      by (simp add: calcular_conserva)
  next
    case False
    then have "calcular toString (calcular toString s)
        = (if modeloActual s \<noteq> None \<and> valA s \<noteq> [] \<and> valB s \<noteq> []
           then (calcular toString s)\<lparr>mundo := emit (Alert mensajeValidacion)
                                                 (mundo (calcular toString s))\<rparr>
           else calcular toString s)"
      using calcular_sin_efecto [of "calcular toString s" toString]
        calcular_aviso [of "calcular toString s" toString]
      by (auto simp add: calcular_conserva)
    then show ?thesis
      by simp
  qed
  show "modeloActual s1 = modeloActual s2 \<and> valA s1 = valA s2 \<and> valB s1 = valB s2
        \<and> modeloActual s1 \<noteq> None \<and> valA s1 \<noteq> [] \<and> valB s1 \<noteq> []
        \<and> \<not> isNaN (parseFloat (valA s1)) \<and> \<not> isNaN (parseFloat (valB s1))
      \<longrightarrow> resultado (calcular toString s1) = resultado (calcular toString s2)"
    using calcular_mismo_resultado [of s1 s2 toString] by blast
qed

theorem calcular_determinista_witness:
  "resultado (calcular enteroATexto (escenario Resta ''10'' ''4'')) = Some ''6.00''
   \<and> resultado (calcular enteroATexto (calcular enteroATexto (escenario Resta ''10'' ''4'')))
       = Some ''6.00''
   \<and> resultado (calcular enteroATexto
        ((escenario Resta ''10'' ''4'')\<lparr>resultado := Some ''Error'', operacion := Suma\<rparr>))
       = Some ''6.00''"
proof -
  have r: "resultado (calcular enteroATexto (escenario Resta ''10'' ''4'')) = Some ''6.00''"
    by code_simp
  have a: "parseFloat ''10'' = Fin 10" and b: "parseFloat ''4'' = Fin 4"
    by code_simp+
  show ?thesis
    using calcular_determinista [of enteroATexto "escenario Resta ''10'' ''4''"
        "escenario Resta ''10'' ''4''"
        "(escenario Resta ''10'' ''4'')\<lparr>resultado := Some ''Error'', operacion := Suma\<rparr>"] r
    by (simp add: escenario_campos escenario_modelo a b isNaN_def)
qed


subsection \<open>A failing forward pass\<close>

lemma forward_falla_salida:
  "forward m ([1, 2], [nA, nB]) = Inl e \<Longrightarrow> salida (fst (bloqueTry toString m nA nB w)) = Inl e"
  by (simp add: bloqueTry_salida)

text \<open>
  C7. When a prediction runs and the \<open>try\<close> block raises an exception (a failing forward
  pass, or no first element to read in its result), \<open>calcular\<close> returns normally with
  \<open>Error\<close> displayed in place of a number. \<open>predict\<close> has been called once and not again.
  The model stays in the slot, the fields and flags are unchanged and no tensor is left
  behind, so the button stays enabled and a later prediction displays what it would have
  displayed had the failure not happened.
\<close>

theorem fallo_de_inferencia:
  assumes "modeloActual s = Some m" and "valA s \<noteq> []" and "valB s \<noteq> []"
    and "\<not> isNaN (parseFloat (valA s))" and "\<not> isNaN (parseFloat (valB s))"
    and "salida (fst (bloqueTry toString m (parseFloat (valA s)) (parseFloat (valB s)) (mundo s)))
           = Inl e"
  shows "resultado (calcular toString s) = Some ''Error''
       \<and> trace (mundo (calcular toString s)) =
           trace (mundo s) @ [Predict [parseFloat (valA s), parseFloat (valB s)], ConsoleError]
       \<and> modeloActual (calcular toString s) = Some m
       \<and> cargando (calcular toString s) = cargando s
       \<and> operacion (calcular toString s) = operacion s
       \<and> origenModelo (calcular toString s) = origenModelo s
       \<and> valA (calcular toString s) = valA s \<and> valB (calcular toString s) = valB s
       \<and> live (mundo (calcular toString s)) \<subseteq> live (mundo s)
       \<and> (\<forall>a b. a \<noteq> [] \<and> b \<noteq> [] \<and> \<not> isNaN (parseFloat a) \<and> \<not> isNaN (parseFloat b) \<longrightarrow>
             resultado (calcular toString ((calcular toString s)\<lparr>valA := a, valB := b\<rparr>))
               = resultado (calcular toString (s\<lparr>valA := a, valB := b\<rparr>)))"
proof (intro conjI allI impI)
  show "resultado (calcular toString s) = Some ''Error''"
    using calcular_resultado_valido(1) [OF assms(1-5), of toString] assms(6) by simp
  show "trace (mundo (calcular toString s)) =
           trace (mundo s) @ [Predict [parseFloat (valA s), parseFloat (valB s)], ConsoleError]"
    using calcular_resultado_valido(2) [OF assms(1-5), of toString] assms(6) by simp
  show "modeloActual (calcular toString s) = Some m"
    using assms(1) by (simp add: calcular_conserva)
  show "cargando (calcular toString s) = cargando s"
    "operacion (calcular toString s) = operacion s"
    "origenModelo (calcular toString s) = origenModelo s"
    "valA (calcular toString s) = valA s" "valB (calcular toString s) = valB s"
    by (simp_all add: calcular_conserva)
  show "live (mundo (calcular toString s)) \<subseteq> live (mundo s)"
    using calcular_mundo [of s toString] by blast
next
  fix a b
  assume v: "a \<noteq> [] \<and> b \<noteq> [] \<and> \<not> isNaN (parseFloat a) \<and> \<not> isNaN (parseFloat b)"
  show "resultado (calcular toString ((calcular toString s)\<lparr>valA := a, valB := b\<rparr>))
          = resultado (calcular toString (s\<lparr>valA := a, valB := b\<rparr>))"
    using calcular_mismo_resultado [of "(calcular toString s)\<lparr>valA := a, valB := b\<rparr>"
        "s\<lparr>valA := a, valB := b\<rparr>" toString] v assms(1)
    by (simp add: calcular_conserva)
qed

lemma tresEntradas_falla: "sh = [1, 2] \<Longrightarrow> tresEntradas (sh, xs) = Inl ValueError"
  by (simp add: tresEntradas_def denseCall_def)

lemma escenarioArchivo_campos:
  "modeloActual (escenarioArchivo f a b) = Some (Loaded f)"
  "valA (escenarioArchivo f a b) = a" "valB (escenarioArchivo f a b) = b"
  "trace (mundo (escenarioArchivo f a b))
     = [ConsoleLog, LoadLayersModel ''/modelo_suma/model.json'', ConsoleLog]"
  by (simp_all add: escenarioArchivo_def cambiarModelo_def cambiarModelo_fin_exito
      cambiarModelo_inicio_def inicial_def emit_def path_def)

theorem fallo_de_inferencia_witness:
  "forward (Loaded tresEntradas) ([1, 2], [parseFloat ''2'', parseFloat ''3'']) = Inl ValueError
   \<and> resultado (calcular enteroATexto (escenarioArchivo tresEntradas ''2'' ''3'')) = Some ''Error''
   \<and> trace (mundo (calcular enteroATexto (escenarioArchivo tresEntradas ''2'' ''3''))) =
        [ConsoleLog, LoadLayersModel ''/modelo_suma/model.json'', ConsoleLog,
         Predict [Fin 2, Fin 3], ConsoleError]
   \<and> modeloActual (calcular enteroATexto (escenarioArchivo tresEntradas ''2'' ''3''))
        = Some (Loaded tresEntradas)
   \<and> map_option (resultado \<circ> fst)
        (ejecutar enteroATexto
          [Terminar 0 (Inr tresEntradas), EscribirA ''2'', EscribirB ''3'', Pulsar,
           Seleccionar Resta, Terminar 0 (Inl LoadError), Pulsar] montado)
        = Some (Some ''-1.00'')"
proof -
  have a: "parseFloat ''2'' = Fin 2" and b: "parseFloat ''3'' = Fin 3"
    by code_simp+
  have f: "forward (Loaded tresEntradas) ([1, 2], [parseFloat ''2'', parseFloat ''3''])
      = Inl ValueError"
    by (simp add: forward_def tresEntradas_falla)
  have e: "map_option (resultado \<circ> fst)
        (ejecutar enteroATexto
          [Terminar 0 (Inr tresEntradas), EscribirA ''2'', EscribirB ''3'', Pulsar,
           Seleccionar Resta, Terminar 0 (Inl LoadError), Pulsar] montado)
        = Some (Some ''-1.00'')"
    by code_simp
  show ?thesis
    using fallo_de_inferencia [of "escenarioArchivo tresEntradas ''2'' ''3''"
        "Loaded tresEntradas" enteroATexto ValueError]
      forward_falla_salida [OF f, of enteroATexto] f e
    by (simp add: escenarioArchivo_campos a b isNaN_def)
qed

subsection \<open>Text with a numeric prefix\<close>

text \<open>
  C10. With a model in the slot and two non-empty fields for which \<open>parseFloat\<close> gives the
  finite numbers \<open>a\<close> and \<open>b\<close> (it reads the leading numeric prefix, so \<open>3abc\<close> gives \<open>3\<close>),
  \<open>calcular\<close> takes the input as valid: it raises no notice, calls \<open>predict\<close> on \<open>[[a, b]]\<close>
  and displays a result. The only calls it adds to the trace are that \<open>predict\<close> and, if the
  prediction fails, the error log.
\<close>

theorem prefijo_numerico:
  assumes "modeloActual s = Some m" and "valA s \<noteq> []" and "valB s \<noteq> []"
    and "parseFloat (valA s) = Fin a" and "parseFloat (valB s) = Fin b"
  shows "(trace (mundo (calcular toString s)) = trace (mundo s) @ [Predict [Fin a, Fin b]]
          \<or> trace (mundo (calcular toString s))
               = trace (mundo s) @ [Predict [Fin a, Fin b], ConsoleError])
       \<and> resultado (calcular toString s) \<noteq> None
       \<and> resultado (calcular toString s) =
           Some (case salida (fst (bloqueTry toString m (Fin a) (Fin b) (mundo s))) of
                   Inr texto \<Rightarrow> texto | Inl e \<Rightarrow> ''Error'')"
proof -
  have n: "\<not> isNaN (parseFloat (valA s))" "\<not> isNaN (parseFloat (valB s))"
    using assms(4,5) by (simp_all add: isNaN_def)
  show ?thesis
    using calcular_resultado_valido(1,2) [OF assms(1-3) n, of toString] assms(4,5)
    by (auto split: sum.splits)
qed

theorem prefijo_numerico_witness:
  "parseFloat ''3abc'' = Fin 3 \<and> parseFloat ''2.5e1xyz'' = Fin 25
   \<and> trace (mundo (calcular enteroATexto (escenario Suma ''3abc'' ''2.5e1xyz''))) =
        [ConsoleLog, LoadLayersModel ''/modelo_suma/model.json'', ConsoleWarn,
         Predict [Fin 3, Fin 25]]
   \<and> resultado (calcular enteroATexto (escenario Suma ''3abc'' ''2.5e1xyz'')) = Some ''28.00''"
proof -
  have a: "parseFloat ''3abc'' = Fin 3" and b: "parseFloat ''2.5e1xyz'' = Fin 25"
    by code_simp+
  have r: "resultado (calcular enteroATexto (escenario Suma ''3abc'' ''2.5e1xyz'')) = Some ''28.00''"
    by code_simp
  have t: "trace (mundo (calcular enteroATexto (escenario Suma ''3abc'' ''2.5e1xyz''))) =
        [ConsoleLog, LoadLayersModel ''/modelo_suma/model.json'', ConsoleWarn,
         Predict [Fin 3, Fin 25]]"
    by code_simp
  show ?thesis
    using prefijo_numerico [of "escenario Suma ''3abc'' ''2.5e1xyz''" _ 3 25 enteroATexto] a b r t
    by (simp add: escenario_campos escenario_modelo)
qed


subsection \<open>Replacing the model\<close>

text \<open>
  C5, as the code has it. When the operation changes, the previous model is discarded: the
  slot is cleared when the resolution starts, before the replacement is installed at its end.
  No tensor is released on the way: every tensor live before is live after each of the two
  steps, the weights of the previous model among them.
\<close>

theorem reemplazo_sin_liberar:
  "modeloActual (cambiarModelo_inicio s) = None
   \<and> live (mundo (cambiarModelo_inicio s)) = live (mundo s)
   \<and> live (mundo s) \<subseteq> live (mundo (fst (cambiarModelo_fin op loaded s)))
   \<and> modeloActual (fst (cambiarModelo loaded s)) \<noteq> None
   \<and> live (mundo s) \<subseteq> live (mundo (fst (cambiarModelo loaded s)))
   \<and> pesosActuales s \<inter> live (mundo s) \<subseteq> live (mundo (fst (cambiarModelo loaded s)))"
proof -
  have i: "modeloActual (cambiarModelo_inicio s) = None"
    "live (mundo (cambiarModelo_inicio s)) = live (mundo s)"
    by (simp_all add: cambiarModelo_inicio_def emit_def)
  have f: "live (mundo t) \<subseteq> live (mundo (fst (cambiarModelo_fin op' loaded t)))" for op' t
    by (cases loaded) (auto simp add: cambiarModelo_fin_fallo cambiarModelo_fin_exito)
  have c: "live (mundo s) \<subseteq> live (mundo (fst (cambiarModelo loaded s)))"
    unfolding cambiarModelo_def using f [of "cambiarModelo_inicio s" "operacion s"] i(2) by simp
  have m: "modeloActual (fst (cambiarModelo loaded s)) \<noteq> None"
    unfolding cambiarModelo_def by (rule cambiarModelo_fin_modelo)
  show ?thesis
    using i f [of s op] c m by blast
qed

theorem reemplazo_sin_liberar_witness:
  "live (mundo (escenario Suma [] [])) = {0, 1}
   \<and> modeloActual (cambiarModelo_inicio ((escenario Suma [] [])\<lparr>operacion := Resta\<rparr>)) = None
   \<and> {0, 1} \<subseteq> live (mundo (fst (cambiarModelo (Inl LoadError)
                                     ((escenario Suma [] [])\<lparr>operacion := Resta\<rparr>))))"
proof -
  have l: "live (mundo (escenario Suma [] [])) = {0, 1}"
    by (simp add: escenario_def cambiarModelo_def cambiarModelo_fin_fallo cambiarModelo_inicio_def
        inicial_def emit_def insert_commute)
  show ?thesis
    using reemplazo_sin_liberar [of "(escenario Suma [] [])\<lparr>operacion := Resta\<rparr>" Resta
        "Inl LoadError"] l
    by simp
qed

text \<open>
  C5 as the specification words it fails: after the model for \<open>Suma\<close>, whose weights are
  the tensors 0 and 1, has been replaced by the model for \<open>Resta\<close>, whose weights are the
  tensors 2 and 3, the tensors 0 and 1 are still live.
\<close>

theorem modelo_anterior_sigue_vivo:
  "pesosActuales (escenario Suma [] []) = {0, 1}
   \<and> pesosActuales (fst (cambiarModelo (Inl LoadError)
                            ((escenario Suma [] [])\<lparr>operacion := Resta\<rparr>))) = {2, 3}
   \<and> live (mundo (fst (cambiarModelo (Inl LoadError)
                         ((escenario Suma [] [])\<lparr>operacion := Resta\<rparr>)))) = {0, 1, 2, 3}"
  by (auto simp add: escenario_def cambiarModelo_def cambiarModelo_fin_fallo cambiarModelo_inicio_def
      inicial_def emit_def pesosActuales_def pesos_def)


subsection \<open>The lifecycle of the model\<close>

lemma fase_inicio: "fase (cambiarModelo_inicio s) = Loading"
  by (simp add: fase_def cambiarModelo_inicio_def)

lemma fase_iff:
  "(fase s = Loading) = cargando s"
  "(fase s = Idle) = (\<not> cargando s \<and> modeloActual s = None)"
  "(fase s = Ready Archivo) = (\<not> cargando s \<and> (\<exists>f. modeloActual s = Some (Loaded f)))"
  "(fase s = Ready Memoria) = (\<not> cargando s \<and> (\<exists>d k b. modeloActual s = Some (Sequential d k b)))"
  by (auto simp add: fase_def split: option.splits LayersModel.splits)

lemma coherente_iff:
  "coherente (s, v) =
     ((cargando s \<longrightarrow> modeloActual s = None \<and> v \<noteq> [])
      \<and> (\<not> cargando s \<longrightarrow>
           (\<exists>f. modeloActual s = Some (Loaded f) \<and> origenModelo s = ''Archivo JSON'')
           \<or> (\<exists>d k b. modeloActual s = Some (Sequential d k b)
                 \<and> origenModelo s = ''Generado en Memoria (Demo)'')))"
  by (auto simp add: coherente_def fase_def
      split: fase.splits procedencia.splits option.splits LayersModel.splits)

lemma coherente_inicio: "coherente (cambiarModelo_inicio s, enVuelo @ [op])"
  by (simp add: coherente_iff cambiarModelo_inicio_def)

lemma fase_fin:
  "fase (fst (cambiarModelo_fin op loaded s)) = (case loaded of Inl e \<Rightarrow> Ready Memoria | Inr f \<Rightarrow> Ready Archivo)"
  by (cases loaded) (simp_all add: fase_def cambiarModelo_fin_fallo cambiarModelo_fin_exito)

lemma coherente_fin: "coherente (fst (cambiarModelo_fin op loaded s), enVuelo)"
  by (cases loaded) (simp_all add: coherente_iff cambiarModelo_fin_fallo cambiarModelo_fin_exito)

lemma coherente_paso:
  assumes "coherente c" and "paso toString e c = Some c'"
  shows "coherente c'"
proof -
  obtain s enVuelo where c: "c = (s, enVuelo)"
    by (cases c)
  show ?thesis
  proof (cases e)
    case (Seleccionar op)
    then show ?thesis
      using assms c by (auto simp add: coherente_inicio split: if_splits)
  next
    case (Terminar i loaded)
    then show ?thesis
      using assms c by (auto simp add: coherente_fin split: if_splits)
  next
    case (EscribirA v)
    then show ?thesis
      using assms c by (auto simp add: coherente_iff)
  next
    case (EscribirB v)
    then show ?thesis
      using assms c by (auto simp add: coherente_iff)
  next
    case Pulsar
    then have "c' = (calcular toString s, enVuelo)"
      using assms(2) c by (simp split: if_splits)
    then show ?thesis
      using assms(1) c by (simp add: coherente_iff calcular_conserva)
  qed
qed

lemma coherente_ejecutar:
  "coherente c \<Longrightarrow> ejecutar toString es c = Some c' \<Longrightarrow> coherente c'"
proof (induction es arbitrary: c)
  case Nil
  then show ?case
    by simp
next
  case (Cons e es)
  then obtain c1 where p: "paso toString e c = Some c1" and r: "ejecutar toString es c1 = Some c'"
    by (auto split: option.splits)
  show ?case
    using Cons.IH [OF coherente_paso [OF Cons.prems(1) p] r] .
qed

lemma coherente_montado: "coherente montado"
  by (simp add: montado_def coherente_iff cambiarModelo_inicio_def)

text \<open>
  C8, as the code has it. Before the effect runs the component is idle; mounting starts a
  resolution. In every configuration the mounted component can reach it is loading or
  ready. While it is loading (\<open>cargando\<close> set) the slot is empty, a resolution is in flight,
  the button cannot be pressed and \<open>calcular\<close> would do nothing; so the button can be
  pressed, and a prediction can run, only when it is ready. When it is ready the origin shown
  is that of the model in the slot. Selecting another operation leads to loading, and the
  end of any resolution in flight leads to ready. The component is loading from a change of
  operation until the first resolution in flight ends, which need not be the one started
  last.
\<close>

theorem ciclo_de_vida:
  assumes "ejecutar toString es montado = Some (s, enVuelo)"
  shows "fase inicial = Idle \<and> fase (fst montado) = Loading
       \<and> fase s \<noteq> Idle
       \<and> (fase s = Loading \<longrightarrow>
            modeloActual s = None \<and> enVuelo \<noteq> [] \<and> calcular toString s = s
            \<and> paso toString Pulsar (s, enVuelo) = None)
       \<and> (paso toString Pulsar (s, enVuelo) \<noteq> None \<longrightarrow> (\<exists>p. fase s = Ready p))
       \<and> (fase s = Ready Archivo \<longrightarrow>
            (\<exists>f. modeloActual s = Some (Loaded f)) \<and> origenModelo s = ''Archivo JSON'')
       \<and> (fase s = Ready Memoria \<longrightarrow>
            (\<exists>d k b. modeloActual s = Some (Sequential d k b))
            \<and> origenModelo s = ''Generado en Memoria (Demo)'')
       \<and> (\<forall>op. op \<noteq> operacion s \<longrightarrow>
            (\<exists>s' v. paso toString (Seleccionar op) (s, enVuelo) = Some (s', v) \<and> fase s' = Loading))
       \<and> (\<forall>i loaded. i < length enVuelo \<longrightarrow>
            (\<exists>s' v p. paso toString (Terminar i loaded) (s, enVuelo) = Some (s', v)
               \<and> fase s' = Ready p))"
proof -
  have c: "coherente (s, enVuelo)"
    using coherente_ejecutar [OF coherente_montado assms] .
  have 1: "fase inicial = Idle"
    by (simp add: fase_def inicial_def)
  have 2: "fase (fst montado) = Loading"
    by (simp add: montado_def fase_inicio)
  have 3: "fase s \<noteq> Idle"
    using c by (auto simp add: coherente_iff fase_iff)
  have 4: "fase s = Loading \<longrightarrow>
            modeloActual s = None \<and> enVuelo \<noteq> [] \<and> calcular toString s = s
            \<and> paso toString Pulsar (s, enVuelo) = None"
    using c by (auto simp add: coherente_iff fase_iff calcular_sin_efecto)
  have 5: "paso toString Pulsar (s, enVuelo) \<noteq> None \<longrightarrow> (\<exists>p. fase s = Ready p)"
    using 3 by (cases "fase s") (auto simp add: fase_iff split: if_splits)
  have 6: "fase s = Ready Archivo \<longrightarrow>
            (\<exists>f. modeloActual s = Some (Loaded f)) \<and> origenModelo s = ''Archivo JSON''"
    using c by (auto simp add: coherente_iff fase_iff)
  have 7: "fase s = Ready Memoria \<longrightarrow>
            (\<exists>d k b. modeloActual s = Some (Sequential d k b))
            \<and> origenModelo s = ''Generado en Memoria (Demo)''"
    using c by (auto simp add: coherente_iff fase_iff)
  have 8: "\<forall>op. op \<noteq> operacion s \<longrightarrow>
            (\<exists>s' v. paso toString (Seleccionar op) (s, enVuelo) = Some (s', v) \<and> fase s' = Loading)"
    by (simp add: fase_inicio)
  have 9: "\<forall>i loaded. i < length enVuelo \<longrightarrow>
            (\<exists>s' v p. paso toString (Terminar i loaded) (s, enVuelo) = Some (s', v)
               \<and> fase s' = Ready p)"
    by (simp add: fase_fin split: sum.splits)
  show ?thesis
    using 1 2 3 4 5 6 7 8 9 by blast
qed

theorem ciclo_de_vida_witness:
  "ejecutar enteroATexto [Terminar 0 (Inl LoadError), Seleccionar Resta] montado =
     Some (cambiarModelo_inicio ((escenario Suma [] [])\<lparr>operacion := Resta\<rparr>), [Resta])
   \<and> fase (escenario Suma [] []) = Ready Memoria
   \<and> fase (cambiarModelo_inicio ((escenario Suma [] [])\<lparr>operacion := Resta\<rparr>)) = Loading
   \<and> modeloActual (cambiarModelo_inicio ((escenario Suma [] [])\<lparr>operacion := Resta\<rparr>)) = None
   \<and> paso enteroATexto Pulsar
        (cambiarModelo_inicio ((escenario Suma [] [])\<lparr>operacion := Resta\<rparr>), [Resta]) = None
   \<and> calcular enteroATexto (cambiarModelo_inicio ((escenario Suma [] [])\<lparr>operacion := Resta\<rparr>))
        = cambiarModelo_inicio ((escenario Suma [] [])\<lparr>operacion := Resta\<rparr>)"
proof -
  have r: "ejecutar enteroATexto [Terminar 0 (Inl LoadError), Seleccionar Resta] montado =
     Some (cambiarModelo_inicio ((escenario Suma [] [])\<lparr>operacion := Resta\<rparr>), [Resta])"
    by (simp add: montado_def escenario_def cambiarModelo_def cambiarModelo_fin_fallo
        cambiarModelo_inicio_def inicial_def emit_def)
  have f: "fase (escenario Suma [] []) = Ready Memoria"
    by (simp add: fase_iff escenario_def cambiarModelo_def cambiarModelo_fin_fallo
        cambiarModelo_inicio_def inicial_def)
  show ?thesis
    using ciclo_de_vida [OF r] r f by (simp add: fase_inicio)
qed

text \<open>
  C8 as the specification words it fails while a resolution is in flight: the operation is
  changed to \<open>Resta\<close> before the load started for \<open>Suma\<close> has ended, and that load then
  fails. The resolution for \<open>Resta\<close> is still in flight, yet the model for \<open>Suma\<close> is in
  the slot, the component is ready, the button can be pressed and a prediction runs: 2 and
  3 display 5.00.
\<close>

theorem resolucion_en_vuelo_con_modelo:
  "map_option snd
     (ejecutar enteroATexto [Seleccionar Resta, Terminar 0 (Inl LoadError)] montado) = Some [Resta]
   \<and> map_option (fase \<circ> fst)
     (ejecutar enteroATexto [Seleccionar Resta, Terminar 0 (Inl LoadError)] montado)
       = Some (Ready Memoria)
   \<and> map_option (pesosActuales \<circ> fst)
     (ejecutar enteroATexto [Seleccionar Resta, Terminar 0 (Inl LoadError)] montado)
       = Some {0, 1}
   \<and> map_option snd
     (ejecutar enteroATexto
       [Seleccionar Resta, Terminar 0 (Inl LoadError), EscribirA ''2'', EscribirB ''3'', Pulsar]
       montado) = Some [Resta]
   \<and> map_option (resultado \<circ> fst)
     (ejecutar enteroATexto
       [Seleccionar Resta, Terminar 0 (Inl LoadError), EscribirA ''2'', EscribirB ''3'', Pulsar]
       montado) = Some (Some ''5.00'')
   \<and> map_option (trace \<circ> mundo \<circ> fst)
     (ejecutar enteroATexto
       [Seleccionar Resta, Terminar 0 (Inl LoadError), EscribirA ''2'', EscribirB ''3'', Pulsar]
       montado)
       = Some [ConsoleLog, LoadLayersModel ''/modelo_suma/model.json'',
               ConsoleLog, LoadLayersModel ''/modelo_resta/model.json'',
               ConsoleWarn, Predict [Fin 2, Fin 3]]"
  by code_simp

end
